theory Spec2Isabelle
  imports Complex_Main
begin

section \<open>The cadence estimator of src/main.js\<close>

text \<open>
  The source holds two versions of the same program, one after the other. The first
  (lines 1-191, suffix \<open>_v1\<close> below) has five rate bands, a refractory interval of 300 ms,
  a prominence test in the peak detector and the span-based rate formula. The second
  (lines 191-350, suffix \<open>_v2\<close>) has three rate bands, a refractory interval of 250 ms and
  the density-based rate formula. Both keep their state in variables of one closure; the
  model threads that state through every function as a record.

  Numbers. JavaScript numbers are IEEE doubles. Time stamps come from \<open>Date.now()\<close> and are
  whole milliseconds, modelled as \<open>int\<close>; every other number is modelled as an exact
  \<open>real\<close>, so rounding of doubles is not part of the model. \<open>Date.now()\<close> is a parameter
  \<open>now\<close> of each function that reads the clock.

  Division. JavaScript's \<open>/\<close> does not raise on a zero divisor: it yields an infinity or NaN.
  The model makes every division of the source a checked one, \<open>js_div\<close>, whose result on a
  zero divisor is the value \<open>Inl DivisionByZero\<close>.
\<close>

subsection \<open>Data\<close>

datatype fault = DivisionByZero

definition js_div :: "real \<Rightarrow> real \<Rightarrow> fault + real" where
  "js_div a b = (if b = 0 then Inl DivisionByZero else Inr (a / b))"

text \<open>
  The labels are Japanese strings in the source; here each is a constructor.
  \<open>Song1\<close>, \<open>Trans1\<close>, \<open>Song2\<close>, \<open>Trans2\<close>, \<open>Song3\<close> are the five labels of the first
  version (song 1, transition 1, song 2, transition 2, song 3); \<open>Stationary\<close>, \<open>Walking\<close>,
  \<open>FastWalking\<close> the three of the second; \<open>Initializing\<close> is the label \<open>updateUI\<close> shows
  for \<open>null\<close> in both.
\<close>

datatype label_name =
  Song1 | Trans1 | Song2 | Trans2 | Song3
  | Stationary | Walking | FastWalking
  | Initializing

record st =
  label :: label_name
  color :: string

record vec3 =
  x_of :: real
  y_of :: real
  z_of :: real

text \<open>
  \<open>ev.accelerationIncludingGravity\<close> is either \<open>null\<close> or an object whose attributes
  \<open>x\<close>, \<open>y\<close>, \<open>z\<close> are each a number or \<open>null\<close> (the attribute type of the
  DeviceMotion interface is a nullable double). In arithmetic JavaScript converts \<open>null\<close>
  to \<open>0\<close>: \<open>to_number\<close>.
\<close>

record acceleration =
  acc_x :: "real option"
  acc_y :: "real option"
  acc_z :: "real option"

record device_motion_event =
  accelerationIncludingGravity :: "acceleration option"

definition to_number :: "real option \<Rightarrow> real" where
  "to_number v = (case v of None \<Rightarrow> 0 | Some r \<Rightarrow> r)"

text \<open>
  The variables of the closure. \<open>cadenceEl\<close> and \<open>stateEl\<close> are what the page shows:
  \<open>cadenceEl = None\<close> is the text \<open>--\<close>. \<open>cadenceHistory\<close> is the array that is also
  the chart's data set; a slot \<open>None\<close> is \<open>null\<close>. The first version has one variable
  more, \<open>prevFiltered\<close>.
\<close>

record app =
  lastStepTs :: int
  stepTimestamps :: "int list"
  gravity :: vec3
  cadenceHistory :: "real option list"
  lastFiltered :: real
  lastPeakTime :: int
  cadenceEl :: "int option"
  stateEl :: st

record app_v1 = app +
  prevFiltered :: real

subsection \<open>Constants\<close>

named_theorems const_defs

definition THRESHOLD_SONG1_END :: real where [const_defs]: "THRESHOLD_SONG1_END = 20"
definition THRESHOLD_TRANS1_END :: real where [const_defs]: "THRESHOLD_TRANS1_END = 40"
definition THRESHOLD_SONG2_END :: real where [const_defs]: "THRESHOLD_SONG2_END = 100"
definition THRESHOLD_TRANS2_END :: real where [const_defs]: "THRESHOLD_TRANS2_END = 120"

definition THRESHOLD_STATIONARY :: real where [const_defs]: "THRESHOLD_STATIONARY = 20"
definition THRESHOLD_FAST :: real where [const_defs]: "THRESHOLD_FAST = 110"

definition MIN_STEP_INTERVAL_v1 :: int where [const_defs]: "MIN_STEP_INTERVAL_v1 = 300"
definition MIN_STEP_INTERVAL_v2 :: int where [const_defs]: "MIN_STEP_INTERVAL_v2 = 250"
definition PEAK_THRESHOLD_v1 :: real where [const_defs]: "PEAK_THRESHOLD_v1 = 12 / 10"
definition PEAK_THRESHOLD_v2 :: real where [const_defs]: "PEAK_THRESHOLD_v2 = 1"
definition MIN_PEAK_PROMINENCE :: real where [const_defs]: "MIN_PEAK_PROMINENCE = 5 / 10"
definition windowSeconds :: int where [const_defs]: "windowSeconds = 5"
definition alpha :: real where [const_defs]: "alpha = 8 / 10"
definition historyLength :: nat where [const_defs]: "historyLength = 60"

subsection \<open>Initial state\<close>

definition initializing :: st where
  "initializing = \<lparr>label = Initializing, color = ''#888''\<rparr>"

text \<open>The state once the closure has run to its end, the first \<open>updateUI(null)\<close> included.\<close>

definition init_v2 :: app where
  "init_v2 = \<lparr>lastStepTs = 0, stepTimestamps = [],
     gravity = \<lparr>x_of = 0, y_of = 0, z_of = 0\<rparr>,
     cadenceHistory = replicate historyLength None,
     lastFiltered = 0, lastPeakTime = 0,
     cadenceEl = None, stateEl = initializing\<rparr>"

definition init_v1 :: app_v1 where
  "init_v1 = \<lparr>lastStepTs = 0, stepTimestamps = [],
     gravity = \<lparr>x_of = 0, y_of = 0, z_of = 0\<rparr>,
     cadenceHistory = replicate historyLength None,
     lastFiltered = 0, lastPeakTime = 0,
     cadenceEl = None, stateEl = initializing, prevFiltered = 0\<rparr>"

subsection \<open>classify and updateUI\<close>

definition classify_v1 :: "real \<Rightarrow> st" where
  "classify_v1 cadence =
     (if cadence < THRESHOLD_SONG1_END then \<lparr>label = Song1, color = ''#6c757d''\<rparr>
      else if cadence < THRESHOLD_TRANS1_END then \<lparr>label = Trans1, color = ''#007bff''\<rparr>
      else if cadence < THRESHOLD_SONG2_END then \<lparr>label = Song2, color = ''#5cb85c''\<rparr>
      else if cadence < THRESHOLD_TRANS2_END then \<lparr>label = Trans2, color = ''#ffc107''\<rparr>
      else \<lparr>label = Song3, color = ''#d9534f''\<rparr>)"

definition classify_v2 :: "real \<Rightarrow> st" where
  "classify_v2 cadence =
     (if cadence < THRESHOLD_STATIONARY then \<lparr>label = Stationary, color = ''#666''\<rparr>
      else if cadence \<ge> THRESHOLD_FAST then \<lparr>label = FastWalking, color = ''#d9534f''\<rparr>
      else \<lparr>label = Walking, color = ''#5cb85c''\<rparr>)"

text \<open>\<open>Math.round\<close> rounds to the nearest integer, a half upwards.\<close>

definition math_round :: "real \<Rightarrow> int" where
  "math_round r = \<lfloor>r + 1 / 2\<rfloor>"

definition updateUI_v1 :: "app_v1 \<Rightarrow> real option \<Rightarrow> app_v1" where
  "updateUI_v1 s cadence =
     s\<lparr>cadenceEl := (case cadence of None \<Rightarrow> None | Some c \<Rightarrow> Some (math_round c)),
       stateEl := (case cadence of None \<Rightarrow> initializing | Some c \<Rightarrow> classify_v1 c)\<rparr>"

definition updateUI_v2 :: "app \<Rightarrow> real option \<Rightarrow> app" where
  "updateUI_v2 s cadence =
     s\<lparr>cadenceEl := (case cadence of None \<Rightarrow> None | Some c \<Rightarrow> Some (math_round c)),
       stateEl := (case cadence of None \<Rightarrow> initializing | Some c \<Rightarrow> classify_v2 c)\<rparr>"

subsection \<open>computeCadence\<close>

text \<open>
  Both versions prune \<open>stepTimestamps\<close> first and return the rate; the model returns the
  rate together with the state that holds the pruned window. In the first version
  \<open>stepTimestamps[0]\<close> and \<open>stepTimestamps[length - 1]\<close> are read only when \<open>count \<ge> 2\<close>,
  so both are in range.
\<close>

definition computeCadence_v1 :: "app_v1 \<Rightarrow> int \<Rightarrow> fault + (real \<times> app_v1)" where
  "computeCadence_v1 s now =
     (let windowStart = now - windowSeconds * 1000;
          s' = s\<lparr>stepTimestamps := filter (\<lambda>ts. ts \<ge> windowStart) (stepTimestamps s)\<rparr>;
          count = length (stepTimestamps s')
      in if count = 0 then Inr (0, s')
         else if count \<ge> 2 then
           (let first = stepTimestamps s' ! 0;
                last = stepTimestamps s' ! (length (stepTimestamps s') - 1)
            in case js_div (real_of_int (last - first)) 60000 of
                 Inl f \<Rightarrow> Inl f
               | Inr durationMinutes \<Rightarrow>
                   if durationMinutes \<le> 0 then Inr (0, s')
                   else (case js_div (real (count - 1)) durationMinutes of
                           Inl f \<Rightarrow> Inl f
                         | Inr cadence \<Rightarrow> Inr (cadence, s')))
         else (case js_div (real count) (real_of_int windowSeconds) of
                 Inl f \<Rightarrow> Inl f
               | Inr q \<Rightarrow> Inr (q * 60, s')))"

definition computeCadence_v2 :: "app \<Rightarrow> int \<Rightarrow> fault + (real \<times> app)" where
  "computeCadence_v2 s now =
     (let windowStart = now - windowSeconds * 1000;
          s' = s\<lparr>stepTimestamps := filter (\<lambda>ts. ts \<ge> windowStart) (stepTimestamps s)\<rparr>;
          count = length (stepTimestamps s')
      in if count = 0 then Inr (0, s')
         else (case js_div (real count) (real_of_int windowSeconds) of
                 Inl f \<Rightarrow> Inl f
               | Inr q \<Rightarrow> Inr (q * 60, s')))"

subsection \<open>pushHistory, onStep, handleMotion, simulateStep, resetAll\<close>

text \<open>\<open>pushHistory\<close> is the same text in both versions; \<open>shift\<close> drops the first slot.\<close>

definition pushHistory :: "'a app_scheme \<Rightarrow> real option \<Rightarrow> 'a app_scheme" where
  "pushHistory s cadence =
     (let h = cadenceHistory s @ [cadence]
      in s\<lparr>cadenceHistory := (if length h > historyLength then tl h else h)\<rparr>)"

definition onStep_v1 :: "app_v1 \<Rightarrow> int \<Rightarrow> app_v1" where
  "onStep_v1 s ts =
     (if ts - lastStepTs s < MIN_STEP_INTERVAL_v1 then s
      else s\<lparr>lastStepTs := ts, stepTimestamps := stepTimestamps s @ [ts]\<rparr>)"

definition onStep_v2 :: "app \<Rightarrow> int \<Rightarrow> app" where
  "onStep_v2 s ts =
     (if ts - lastStepTs s < MIN_STEP_INTERVAL_v2 then s
      else s\<lparr>lastStepTs := ts, stepTimestamps := stepTimestamps s @ [ts]\<rparr>)"

text \<open>The low-pass update of \<open>gravity\<close> and the magnitude of what is left of the sample.\<close>

definition lowpass :: "vec3 \<Rightarrow> acceleration \<Rightarrow> vec3" where
  "lowpass g a =
     \<lparr>x_of = alpha * x_of g + (1 - alpha) * to_number (acc_x a),
      y_of = alpha * y_of g + (1 - alpha) * to_number (acc_y a),
      z_of = alpha * z_of g + (1 - alpha) * to_number (acc_z a)\<rparr>"

definition magnitude :: "vec3 \<Rightarrow> acceleration \<Rightarrow> real" where
  "magnitude g a =
     (let ax = to_number (acc_x a) - x_of g;
          ay = to_number (acc_y a) - y_of g;
          az = to_number (acc_z a) - z_of g
      in sqrt (ax * ax + ay * ay + az * az))"

definition handleMotion_v1 :: "app_v1 \<Rightarrow> device_motion_event \<Rightarrow> int \<Rightarrow> app_v1" where
  "handleMotion_v1 s ev now =
     (case accelerationIncludingGravity ev of
        None \<Rightarrow> s
      | Some a \<Rightarrow>
          (let s1 = s\<lparr>gravity := lowpass (gravity s) a\<rparr>;
               mag = magnitude (gravity s1) a;
               s2 = (if prevFiltered s1 < lastFiltered s1
                        \<and> lastFiltered s1 > PEAK_THRESHOLD_v1
                        \<and> lastFiltered s1 - prevFiltered s1 > MIN_PEAK_PROMINENCE
                        \<and> mag \<le> lastFiltered s1
                        \<and> now - lastPeakTime s1 > MIN_STEP_INTERVAL_v1
                     then onStep_v1 (s1\<lparr>lastPeakTime := now\<rparr>) now
                     else s1)
           in s2\<lparr>prevFiltered := lastFiltered s2, lastFiltered := mag\<rparr>))"

definition handleMotion_v2 :: "app \<Rightarrow> device_motion_event \<Rightarrow> int \<Rightarrow> app" where
  "handleMotion_v2 s ev now =
     (case accelerationIncludingGravity ev of
        None \<Rightarrow> s
      | Some a \<Rightarrow>
          (let s1 = s\<lparr>gravity := lowpass (gravity s) a\<rparr>;
               mag = magnitude (gravity s1) a;
               s2 = (if lastFiltered s1 > PEAK_THRESHOLD_v2
                        \<and> mag \<le> lastFiltered s1
                        \<and> now - lastPeakTime s1 > MIN_STEP_INTERVAL_v2
                     then onStep_v2 (s1\<lparr>lastPeakTime := now\<rparr>) now
                     else s1)
           in s2\<lparr>lastFiltered := mag\<rparr>))"

definition simulateStep_v1 :: "app_v1 \<Rightarrow> int \<Rightarrow> app_v1" where
  "simulateStep_v1 s now = onStep_v1 s now"

definition simulateStep_v2 :: "app \<Rightarrow> int \<Rightarrow> app" where
  "simulateStep_v2 s now = onStep_v2 s now"

definition resetAll_v1 :: "app_v1 \<Rightarrow> app_v1" where
  "resetAll_v1 s =
     updateUI_v1 (s\<lparr>stepTimestamps := [],
                    cadenceHistory := replicate historyLength None\<rparr>) None"

definition resetAll_v2 :: "app \<Rightarrow> app" where
  "resetAll_v2 s =
     updateUI_v2 (s\<lparr>stepTimestamps := [],
                    cadenceHistory := replicate historyLength None\<rparr>) None"

subsection \<open>The periodic update and the event loop\<close>

text \<open>The callback of \<open>setInterval\<close>: compute, show, record.\<close>

definition tick_v1 :: "app_v1 \<Rightarrow> int \<Rightarrow> fault + app_v1" where
  "tick_v1 s now =
     (case computeCadence_v1 s now of
        Inl f \<Rightarrow> Inl f
      | Inr (cadence, s') \<Rightarrow> Inr (pushHistory (updateUI_v1 s' (Some cadence)) (Some cadence)))"

definition tick_v2 :: "app \<Rightarrow> int \<Rightarrow> fault + app" where
  "tick_v2 s now =
     (case computeCadence_v2 s now of
        Inl f \<Rightarrow> Inl f
      | Inr (cadence, s') \<Rightarrow> Inr (pushHistory (updateUI_v2 s' (Some cadence)) (Some cadence)))"

text \<open>
  The program is single-threaded: its entry points run one after the other, each to its
  end. A run is a list of callbacks, each with the clock reading it sees.
\<close>

datatype callback =
  Motion device_motion_event int
  | SimulateStep int
  | Reset
  | Tick int

fun dispatch_v1 :: "app_v1 \<Rightarrow> callback \<Rightarrow> fault + app_v1" where
  "dispatch_v1 s (Motion ev now) = Inr (handleMotion_v1 s ev now)"
| "dispatch_v1 s (SimulateStep now) = Inr (simulateStep_v1 s now)"
| "dispatch_v1 s Reset = Inr (resetAll_v1 s)"
| "dispatch_v1 s (Tick now) = tick_v1 s now"

fun run_v1 :: "app_v1 \<Rightarrow> callback list \<Rightarrow> fault + app_v1" where
  "run_v1 s [] = Inr s"
| "run_v1 s (c # cs) = (case dispatch_v1 s c of Inl f \<Rightarrow> Inl f | Inr s' \<Rightarrow> run_v1 s' cs)"

fun dispatch_v2 :: "app \<Rightarrow> callback \<Rightarrow> fault + app" where
  "dispatch_v2 s (Motion ev now) = Inr (handleMotion_v2 s ev now)"
| "dispatch_v2 s (SimulateStep now) = Inr (simulateStep_v2 s now)"
| "dispatch_v2 s Reset = Inr (resetAll_v2 s)"
| "dispatch_v2 s (Tick now) = tick_v2 s now"

fun run_v2 :: "app \<Rightarrow> callback list \<Rightarrow> fault + app" where
  "run_v2 s [] = Inr s"
| "run_v2 s (c # cs) = (case dispatch_v2 s c of Inl f \<Rightarrow> Inl f | Inr s' \<Rightarrow> run_v2 s' cs)"

text \<open>The clock readings of a run, in order; \<open>Reset\<close> does not read the clock.\<close>

fun clock_readings :: "callback list \<Rightarrow> int list" where
  "clock_readings [] = []"
| "clock_readings (Motion ev now # cs) = now # clock_readings cs"
| "clock_readings (SimulateStep now # cs) = now # clock_readings cs"
| "clock_readings (Reset # cs) = clock_readings cs"
| "clock_readings (Tick now # cs) = now # clock_readings cs"

subsection \<open>Definitions that follow the specification\<close>

text \<open>
  The specification's classifier: an ordered list of upper bounds with their labels, and
  the label of the first bound above the rate, else the final label. \<open>bands_v1\<close> and
  \<open>bands_v2\<close> are the bounds and labels of the two versions, read off as such a list.
\<close>

fun first_band :: "(real \<times> st) list \<Rightarrow> st \<Rightarrow> real \<Rightarrow> st" where
  "first_band [] final r = final"
| "first_band ((b, l) # bs) final r = (if r < b then l else first_band bs final r)"

definition bands_v1 :: "(real \<times> st) list" where
  "bands_v1 = [(20, \<lparr>label = Song1, color = ''#6c757d''\<rparr>),
               (40, \<lparr>label = Trans1, color = ''#007bff''\<rparr>),
               (100, \<lparr>label = Song2, color = ''#5cb85c''\<rparr>),
               (120, \<lparr>label = Trans2, color = ''#ffc107''\<rparr>)]"

definition bands_v2 :: "(real \<times> st) list" where
  "bands_v2 = [(20, \<lparr>label = Stationary, color = ''#666''\<rparr>),
               (110, \<lparr>label = Walking, color = ''#5cb85c''\<rparr>)]"

text \<open>
  The specification's malformed sample: one with axis data missing, be it the whole
  reading or one of its components.
\<close>

definition malformed :: "device_motion_event \<Rightarrow> bool" where
  "malformed ev =
     (case accelerationIncludingGravity ev of
        None \<Rightarrow> True
      | Some a \<Rightarrow> acc_x a = None \<or> acc_y a = None \<or> acc_z a = None)"

text \<open>Two samples: the device at rest, and a reading whose three components are \<open>null\<close>.\<close>

definition sample_10 :: device_motion_event where
  "sample_10 = \<lparr>accelerationIncludingGravity =
      Some \<lparr>acc_x = Some 0, acc_y = Some 0, acc_z = Some 10\<rparr>\<rparr>"

definition sample_no_axes :: device_motion_event where
  "sample_no_axes = \<lparr>accelerationIncludingGravity =
      Some \<lparr>acc_x = None, acc_y = None, acc_z = None\<rparr>\<rparr>"

text \<open>
  The invariant of the event window behind C9: any two entries, in the order of the list,
  are at least \<open>gap\<close> apart, and no entry is later than \<open>lastStepTs\<close>.
\<close>

definition window_inv :: "int \<Rightarrow> 'a app_scheme \<Rightarrow> bool" where
  "window_inv gap s =
     (sorted_wrt (\<lambda>a b. b - a \<ge> gap) (stepTimestamps s)
      \<and> list_all (\<lambda>t. t \<le> lastStepTs s) (stepTimestamps s))"

text \<open>A short run under a monotonic clock: three injections, a sample and an update.\<close>

definition demo_run :: "callback list" where
  "demo_run = [SimulateStep 1000, SimulateStep 1100, Motion sample_10 1200,
               SimulateStep 1400, Tick 1500]"





section \<open>Properties\<close>

subsection \<open>Auxiliary facts\<close>

lemma replicate_60_tl: "tl (replicate 60 None @ [v]) = replicate 59 None @ [v]"
  by (simp add: numeral_eq_Suc)

lemma tick_reset_v1:
  "tick_v1 (resetAll_v1 s) now =
     Inr ((resetAll_v1 s)\<lparr>cadenceEl := Some 0, stateEl := classify_v1 0,
            cadenceHistory := replicate 59 None @ [Some 0]\<rparr>)"
  by (simp add: tick_v1_def resetAll_v1_def updateUI_v1_def computeCadence_v1_def
      pushHistory_def math_round_def historyLength_def replicate_60_tl)

lemma tick_reset_v2:
  "tick_v2 (resetAll_v2 s) now =
     Inr ((resetAll_v2 s)\<lparr>cadenceEl := Some 0, stateEl := classify_v2 0,
            cadenceHistory := replicate 59 None @ [Some 0]\<rparr>)"
  by (simp add: tick_v2_def resetAll_v2_def updateUI_v2_def computeCadence_v2_def
      pushHistory_def math_round_def historyLength_def replicate_60_tl)

lemma sqrt_64: "sqrt 64 = 8"
  by (rule real_sqrt_unique) simp_all

lemma sqrt_64_25: "sqrt (64 / 25) = 8 / 5"
  by (rule real_sqrt_unique) (simp_all add: power2_eq_square)

lemma after_sample_10_v2:
  "handleMotion_v2 init_v2 sample_10 1000 =
     init_v2\<lparr>gravity := \<lparr>x_of = 0, y_of = 0, z_of = 2\<rparr>, lastFiltered := 8\<rparr>"
  by (simp add: handleMotion_v2_def sample_10_def init_v2_def lowpass_def magnitude_def
      to_number_def const_defs Let_def sqrt_64)

lemma after_sample_10_v1:
  "handleMotion_v1 init_v1 sample_10 1000 =
     init_v1\<lparr>gravity := \<lparr>x_of = 0, y_of = 0, z_of = 2\<rparr>, lastFiltered := 8\<rparr>"
  by (simp add: handleMotion_v1_def sample_10_def init_v1_def lowpass_def magnitude_def
      to_number_def const_defs Let_def sqrt_64)

lemma after_no_axes_v2:
  "handleMotion_v2 (handleMotion_v2 init_v2 sample_10 1000) sample_no_axes 2000 =
     init_v2\<lparr>gravity := \<lparr>x_of = 0, y_of = 0, z_of = 8 / 5\<rparr>, lastFiltered := 8 / 5,
       lastPeakTime := 2000, lastStepTs := 2000, stepTimestamps := [2000]\<rparr>"
  unfolding after_sample_10_v2
  by (simp add: handleMotion_v2_def sample_no_axes_def init_v2_def lowpass_def magnitude_def
      to_number_def const_defs Let_def sqrt_64_25 onStep_v2_def)

lemma after_no_axes_v1:
  "handleMotion_v1 (handleMotion_v1 init_v1 sample_10 1000) sample_no_axes 2000 =
     init_v1\<lparr>gravity := \<lparr>x_of = 0, y_of = 0, z_of = 8 / 5\<rparr>, lastFiltered := 8 / 5,
       prevFiltered := 8,
       lastPeakTime := 2000, lastStepTs := 2000, stepTimestamps := [2000]\<rparr>"
  unfolding after_sample_10_v1
  by (simp add: handleMotion_v1_def sample_no_axes_def init_v1_def lowpass_def magnitude_def
      to_number_def const_defs Let_def sqrt_64_25 onStep_v1_def)

lemma computeCadence_v2_rate:
  "computeCadence_v2 s now =
     Inr (real (length (filter (\<lambda>ts. ts \<ge> now - 5000) (stepTimestamps s))) / 5 * 60,
          s\<lparr>stepTimestamps := filter (\<lambda>ts. ts \<ge> now - 5000) (stepTimestamps s)\<rparr>)"
  by (simp add: computeCadence_v2_def Let_def js_div_def windowSeconds_def)

subsection \<open>Reset\<close>

text \<open>
  C1, as amended. In both versions \<open>resetAll\<close> leaves the event window empty and every
  slot of the history \<open>null\<close>, and itself shows the label "initializing" with the text
  \<open>--\<close>. The next periodic update, with no event in between, computes the rate \<open>0\<close> and
  shows the lowest band (\<open>Song1\<close>, \<open>Stationary\<close>) with the text \<open>0\<close>.
\<close>

theorem reset_then_tick:
  "stepTimestamps (resetAll_v1 s) = []
   \<and> cadenceHistory (resetAll_v1 s) = replicate 60 None
   \<and> stateEl (resetAll_v1 s) = initializing
   \<and> cadenceEl (resetAll_v1 s) = None
   \<and> map_sum id stateEl (tick_v1 (resetAll_v1 s) now) = Inr \<lparr>label = Song1, color = ''#6c757d''\<rparr>
   \<and> map_sum id cadenceEl (tick_v1 (resetAll_v1 s) now) = Inr (Some 0)
   \<and> stepTimestamps (resetAll_v2 t) = []
   \<and> cadenceHistory (resetAll_v2 t) = replicate 60 None
   \<and> stateEl (resetAll_v2 t) = initializing
   \<and> cadenceEl (resetAll_v2 t) = None
   \<and> map_sum id stateEl (tick_v2 (resetAll_v2 t) now) = Inr \<lparr>label = Stationary, color = ''#666''\<rparr>
   \<and> map_sum id cadenceEl (tick_v2 (resetAll_v2 t) now) = Inr (Some 0)"
  unfolding tick_reset_v1 tick_reset_v2
  by (simp add: resetAll_v1_def resetAll_v2_def updateUI_v1_def updateUI_v2_def
      classify_v1_def classify_v2_def const_defs)

text \<open>
  C1 as it was stated fails: after a reset of the initial state, the update at 500 ms
  shows \<open>Song1\<close>, not "initializing".
\<close>

theorem reset_then_tick_counterexample:
  "map_sum id (label \<circ> stateEl) (tick_v1 (resetAll_v1 init_v1) 500) = Inr Song1
   \<and> map_sum id (label \<circ> stateEl) (tick_v1 (resetAll_v1 init_v1) 500) \<noteq> Inr Initializing"
  unfolding tick_reset_v1 by (simp add: classify_v1_def const_defs)

subsection \<open>computeCadence divides safely\<close>

text \<open>
  C2. For every state and every clock reading, \<open>computeCadence\<close> of either version
  returns a rate, never \<open>DivisionByZero\<close>, together with the state whose window is pruned
  to the last five seconds; and when the pruned window is empty the rate is \<open>0\<close>.
\<close>

theorem computeCadence_never_divides_by_zero:
  "(\<exists>r. computeCadence_v1 s now =
          Inr (r, s\<lparr>stepTimestamps := filter (\<lambda>ts. ts \<ge> now - 5000) (stepTimestamps s)\<rparr>)
        \<and> (filter (\<lambda>ts. ts \<ge> now - 5000) (stepTimestamps s) = [] \<longrightarrow> r = 0))
   \<and> (\<exists>r. computeCadence_v2 t now =
          Inr (r, t\<lparr>stepTimestamps := filter (\<lambda>ts. ts \<ge> now - 5000) (stepTimestamps t)\<rparr>)
        \<and> (filter (\<lambda>ts. ts \<ge> now - 5000) (stepTimestamps t) = [] \<longrightarrow> r = 0))"
  by (auto simp add: computeCadence_v1_def computeCadence_v2_def Let_def js_div_def
      windowSeconds_def split: sum.splits)

text \<open>An instance: one event at 1000 ms, long gone at 10000 ms.\<close>

theorem computeCadence_never_divides_by_zero_witness:
  "filter (\<lambda>ts. ts \<ge> 10000 - 5000) (stepTimestamps (init_v1\<lparr>stepTimestamps := [1000]\<rparr>)) = []
   \<and> computeCadence_v1 (init_v1\<lparr>stepTimestamps := [1000]\<rparr>) 10000 = Inr (0, init_v1)
   \<and> filter (\<lambda>ts. ts \<ge> 10000 - 5000) (stepTimestamps (init_v2\<lparr>stepTimestamps := [1000]\<rparr>)) = []
   \<and> computeCadence_v2 (init_v2\<lparr>stepTimestamps := [1000]\<rparr>) 10000 = Inr (0, init_v2)"
  using computeCadence_never_divides_by_zero
    [of "init_v1\<lparr>stepTimestamps := [1000]\<rparr>" 10000 "init_v2\<lparr>stepTimestamps := [1000]\<rparr>"]
  by (auto simp add: init_v1_def init_v2_def)

subsection \<open>classify\<close>

text \<open>
  C3. For every rate \<open>r \<ge> 0\<close>, \<open>classify\<close> of either version returns the label of the
  first band whose upper bound is above \<open>r\<close>, else the final label; the bounds are
  strictly ascending; and each label is returned on exactly one half-open interval, the
  intervals covering the rates from \<open>0\<close> on without gap or overlap.
\<close>

theorem classify_first_band:
  assumes "0 \<le> r"
  shows "classify_v1 r = first_band bands_v1 \<lparr>label = Song3, color = ''#d9534f''\<rparr> r
    \<and> sorted_wrt (<) (map fst bands_v1)
    \<and> (label (classify_v1 r) = Song1) = (0 \<le> r \<and> r < 20)
    \<and> (label (classify_v1 r) = Trans1) = (20 \<le> r \<and> r < 40)
    \<and> (label (classify_v1 r) = Song2) = (40 \<le> r \<and> r < 100)
    \<and> (label (classify_v1 r) = Trans2) = (100 \<le> r \<and> r < 120)
    \<and> (label (classify_v1 r) = Song3) = (120 \<le> r)
    \<and> classify_v2 r = first_band bands_v2 \<lparr>label = FastWalking, color = ''#d9534f''\<rparr> r
    \<and> sorted_wrt (<) (map fst bands_v2)
    \<and> (label (classify_v2 r) = Stationary) = (0 \<le> r \<and> r < 20)
    \<and> (label (classify_v2 r) = Walking) = (20 \<le> r \<and> r < 110)
    \<and> (label (classify_v2 r) = FastWalking) = (110 \<le> r)"
  using assms
  by (simp add: classify_v1_def classify_v2_def bands_v1_def bands_v2_def const_defs)

text \<open>An instance: 50 steps a minute.\<close>

theorem classify_first_band_witness:
  "(0::real) \<le> 50 \<and> label (classify_v1 50) = Song2 \<and> label (classify_v2 50) = Walking"
  using classify_first_band [of 50] by (simp add: bands_v1_def bands_v2_def)

subsection \<open>Samples without data\<close>

text \<open>
  A sample whose reading is absent as a whole (\<open>accelerationIncludingGravity\<close> is
  \<open>null\<close>) is dropped by \<open>handleMotion\<close> of either version: the state after it is the
  state before it, in every variable.
\<close>

lemma absent_reading_dropped:
  assumes "accelerationIncludingGravity ev = None"
  shows "handleMotion_v1 s ev now = s \<and> handleMotion_v2 t ev now = t"
  using assms by (simp add: handleMotion_v1_def handleMotion_v2_def)

text \<open>
  C4. Every malformed sample, one with axis data missing, is to be dropped with no change
  of the gravity estimate, the retained magnitudes, \<open>lastPeakTime\<close> or the event window.
  The code does not do so for a reading that is present with its three components
  \<open>null\<close>: the guard \<open>if (!a) return;\<close> lets it pass and each \<open>null\<close> counts as 0. At
  this input, after one sample of the device at rest, the sample without axes lowers the
  gravity estimate and the retained magnitude, sets \<open>lastPeakTime\<close> and is recorded as
  a step at 2000 ms, in both versions. (In exact arithmetic the estimate falls from 2 to
  8/5; the statement says only that it falls, which does not depend on how the last
  digits are rounded.)
\<close>

theorem malformed_sample_not_dropped:
  "malformed sample_no_axes
   \<and> z_of (gravity (handleMotion_v1 (handleMotion_v1 init_v1 sample_10 1000) sample_no_axes 2000))
       < z_of (gravity (handleMotion_v1 init_v1 sample_10 1000))
   \<and> lastFiltered (handleMotion_v1 (handleMotion_v1 init_v1 sample_10 1000) sample_no_axes 2000)
       < lastFiltered (handleMotion_v1 init_v1 sample_10 1000)
   \<and> lastPeakTime (handleMotion_v1 init_v1 sample_10 1000) = 0
   \<and> lastPeakTime (handleMotion_v1 (handleMotion_v1 init_v1 sample_10 1000) sample_no_axes 2000) = 2000
   \<and> stepTimestamps (handleMotion_v1 init_v1 sample_10 1000) = []
   \<and> stepTimestamps (handleMotion_v1 (handleMotion_v1 init_v1 sample_10 1000) sample_no_axes 2000) = [2000]
   \<and> z_of (gravity (handleMotion_v2 (handleMotion_v2 init_v2 sample_10 1000) sample_no_axes 2000))
       < z_of (gravity (handleMotion_v2 init_v2 sample_10 1000))
   \<and> lastFiltered (handleMotion_v2 (handleMotion_v2 init_v2 sample_10 1000) sample_no_axes 2000)
       < lastFiltered (handleMotion_v2 init_v2 sample_10 1000)
   \<and> lastPeakTime (handleMotion_v2 init_v2 sample_10 1000) = 0
   \<and> lastPeakTime (handleMotion_v2 (handleMotion_v2 init_v2 sample_10 1000) sample_no_axes 2000) = 2000
   \<and> stepTimestamps (handleMotion_v2 init_v2 sample_10 1000) = []
   \<and> stepTimestamps (handleMotion_v2 (handleMotion_v2 init_v2 sample_10 1000) sample_no_axes 2000) = [2000]"
  unfolding after_no_axes_v1 after_no_axes_v2
  unfolding after_sample_10_v1 after_sample_10_v2
  by (simp add: malformed_def sample_no_axes_def init_v1_def init_v2_def)

subsection \<open>The refractory gate on injected events\<close>




subsection \<open>The two rate formulas on three events\<close>




text \<open>
  C7. In the first version (span-based, window of 5 s), from the initial state, for every
  clock reading \<open>T \<ge> 0\<close>, and so for \<open>T = 0\<close>: after injections at \<open>T\<close>, \<open>T + 1000\<close> and
  \<open>T + 2000\<close> the rate computed at \<open>T + 2000\<close> is 60. For \<open>T \<ge> 300\<close> the window
  holds the three events, two intervals over a span of 2000 ms; for \<open>T < 300\<close> the gate
  rejects the first injection (\<open>lastStepTs\<close> starts at 0) and the window holds the other
  two, one interval over 1000 ms: 60 either way.
\<close>

theorem span_example:
  assumes "0 \<le> T"
  shows "map_sum id fst (computeCadence_v1
      (simulateStep_v1 (simulateStep_v1 (simulateStep_v1 init_v1 T) (T + 1000)) (T + 2000))
      (T + 2000)) = Inr 60
    \<and> stepTimestamps
        (simulateStep_v1 (simulateStep_v1 (simulateStep_v1 init_v1 T) (T + 1000)) (T + 2000))
        = (if T < 300 then [T + 1000, T + 2000] else [T, T + 1000, T + 2000])"
  using assms
  by (simp add: simulateStep_v1_def onStep_v1_def init_v1_def const_defs computeCadence_v1_def
      js_div_def Let_def)

text \<open>The instance of the claim: \<open>T = 0\<close>.\<close>

theorem span_example_witness:
  "(0::int) \<le> 0 \<and> map_sum id fst (computeCadence_v1
      (simulateStep_v1 (simulateStep_v1 (simulateStep_v1 init_v1 0) (0 + 1000)) (0 + 2000))
      (0 + 2000)) = Inr 60
   \<and> stepTimestamps
        (simulateStep_v1 (simulateStep_v1 (simulateStep_v1 init_v1 0) (0 + 1000)) (0 + 2000))
        = [1000, 2000]"
  using span_example [of 0] by simp

subsection \<open>The zero span\<close>

text \<open>
  C10. In the first version, when at least two events are left after pruning and the
  first and the last of them carry the same time stamp, \<open>computeCadence\<close> returns the
  rate 0, not a division by zero.
\<close>

theorem zero_span_rate_zero:
  assumes "ws = filter (\<lambda>ts. ts \<ge> now - 5000) (stepTimestamps s)"
    and "2 \<le> length ws"
    and "ws ! 0 = ws ! (length ws - 1)"
  shows "computeCadence_v1 s now = Inr (0, s\<lparr>stepTimestamps := ws\<rparr>)"
  using assms by (simp add: computeCadence_v1_def Let_def js_div_def windowSeconds_def)

text \<open>An instance: a window holding the time stamp 1000 twice.\<close>

theorem zero_span_rate_zero_witness:
  "[1000, 1000] = filter (\<lambda>ts. ts \<ge> 2000 - 5000) (stepTimestamps (init_v1\<lparr>stepTimestamps := [1000, 1000]\<rparr>))
   \<and> 2 \<le> length [1000, 1000 :: int]
   \<and> [1000, 1000 :: int] ! 0 = [1000, 1000] ! (length [1000, 1000 :: int] - 1)
   \<and> computeCadence_v1 (init_v1\<lparr>stepTimestamps := [1000, 1000]\<rparr>) 2000
        = Inr (0, init_v1\<lparr>stepTimestamps := [1000, 1000]\<rparr>)"
  using zero_span_rate_zero [of "[1000, 1000]" 2000 "init_v1\<lparr>stepTimestamps := [1000, 1000]\<rparr>"]
  by simp

subsection \<open>Order and spacing of the event window\<close>

text \<open>
  Each entry point keeps \<open>window_inv\<close>: \<open>onStep\<close> appends a time stamp only when it is
  at least the refractory interval after \<open>lastStepTs\<close>, which bounds every entry; pruning
  takes entries away; \<open>resetAll\<close> empties the window.
\<close>

lemma window_inv_onStep_v1:
  "window_inv MIN_STEP_INTERVAL_v1 s \<Longrightarrow> window_inv MIN_STEP_INTERVAL_v1 (onStep_v1 s ts)"
  by (fastforce simp add: window_inv_def onStep_v1_def sorted_wrt_append list_all_iff
      MIN_STEP_INTERVAL_v1_def)

lemma window_inv_onStep_v2:
  "window_inv MIN_STEP_INTERVAL_v2 s \<Longrightarrow> window_inv MIN_STEP_INTERVAL_v2 (onStep_v2 s ts)"
  by (fastforce simp add: window_inv_def onStep_v2_def sorted_wrt_append list_all_iff
      MIN_STEP_INTERVAL_v2_def)

lemma window_inv_cong:
  "stepTimestamps s' = stepTimestamps s \<Longrightarrow> lastStepTs s' = lastStepTs s
   \<Longrightarrow> window_inv g s \<Longrightarrow> window_inv g s'"
  by (simp add: window_inv_def)


lemma window_inv_handleMotion_v1:
  assumes "window_inv MIN_STEP_INTERVAL_v1 s"
  shows "window_inv MIN_STEP_INTERVAL_v1 (handleMotion_v1 s ev now)"
proof (cases "accelerationIncludingGravity ev")
  case None
  then show ?thesis using assms by (simp add: handleMotion_v1_def)
next
  case (Some a)
  let ?s1 = "s\<lparr>gravity := lowpass (gravity s) a\<rparr>"
  have i1: "window_inv MIN_STEP_INTERVAL_v1 (?s1\<lparr>lastPeakTime := now\<rparr>)"
    using assms by (simp add: window_inv_def)
  have i2: "window_inv MIN_STEP_INTERVAL_v1 (onStep_v1 (?s1\<lparr>lastPeakTime := now\<rparr>) now)"
    by (rule window_inv_onStep_v1 [OF i1])
  have i3: "window_inv MIN_STEP_INTERVAL_v1 ?s1"
    using assms by (simp add: window_inv_def)
  show ?thesis
    using i2 i3 Some
    by (simp add: handleMotion_v1_def Let_def window_inv_def)
qed

lemma window_inv_handleMotion_v2:
  assumes "window_inv MIN_STEP_INTERVAL_v2 s"
  shows "window_inv MIN_STEP_INTERVAL_v2 (handleMotion_v2 s ev now)"
proof (cases "accelerationIncludingGravity ev")
  case None
  then show ?thesis using assms by (simp add: handleMotion_v2_def)
next
  case (Some a)
  let ?s1 = "s\<lparr>gravity := lowpass (gravity s) a\<rparr>"
  have i1: "window_inv MIN_STEP_INTERVAL_v2 (?s1\<lparr>lastPeakTime := now\<rparr>)"
    using assms by (simp add: window_inv_def)
  have i2: "window_inv MIN_STEP_INTERVAL_v2 (onStep_v2 (?s1\<lparr>lastPeakTime := now\<rparr>) now)"
    by (rule window_inv_onStep_v2 [OF i1])
  have i3: "window_inv MIN_STEP_INTERVAL_v2 ?s1"
    using assms by (simp add: window_inv_def)
  show ?thesis
    using i2 i3 Some
    by (simp add: handleMotion_v2_def Let_def window_inv_def)
qed

lemma window_inv_resetAll_v1: "window_inv g (resetAll_v1 s)"
  by (simp add: window_inv_def resetAll_v1_def updateUI_v1_def)

lemma window_inv_resetAll_v2: "window_inv g (resetAll_v2 s)"
  by (simp add: window_inv_def resetAll_v2_def updateUI_v2_def)

lemma computeCadence_v1_window:
  "\<exists>r. computeCadence_v1 s now =
        Inr (r, s\<lparr>stepTimestamps := filter (\<lambda>ts. ts \<ge> now - 5000) (stepTimestamps s)\<rparr>)"
  by (auto simp add: computeCadence_v1_def Let_def js_div_def windowSeconds_def split: sum.splits)

lemma window_inv_filter:
  "window_inv g s \<Longrightarrow> window_inv g (s\<lparr>stepTimestamps := filter P (stepTimestamps s)\<rparr>)"
  by (simp add: window_inv_def sorted_wrt_filter list_all_iff)

lemma window_inv_tick_v1:
  assumes "window_inv g s"
  shows "\<exists>s'. tick_v1 s now = Inr s' \<and> window_inv g s'"
proof -
  obtain r where r: "computeCadence_v1 s now =
      Inr (r, s\<lparr>stepTimestamps := filter (\<lambda>ts. ts \<ge> now - 5000) (stepTimestamps s)\<rparr>)"
    using computeCadence_v1_window by blast
  have "window_inv g (s\<lparr>stepTimestamps := filter (\<lambda>ts. ts \<ge> now - 5000) (stepTimestamps s)\<rparr>)"
    by (rule window_inv_filter [OF assms])
  then show ?thesis
    by (simp add: tick_v1_def r window_inv_def pushHistory_def updateUI_v1_def Let_def)
qed

lemma window_inv_tick_v2:
  assumes "window_inv g s"
  shows "\<exists>s'. tick_v2 s now = Inr s' \<and> window_inv g s'"
proof -
  have "window_inv g (s\<lparr>stepTimestamps := filter (\<lambda>ts. ts \<ge> now - 5000) (stepTimestamps s)\<rparr>)"
    by (rule window_inv_filter [OF assms])
  then show ?thesis
    by (simp add: tick_v2_def computeCadence_v2_rate window_inv_def pushHistory_def
        updateUI_v2_def Let_def)
qed

lemma window_inv_dispatch_v1:
  "window_inv MIN_STEP_INTERVAL_v1 s
   \<Longrightarrow> \<exists>s'. dispatch_v1 s c = Inr s' \<and> window_inv MIN_STEP_INTERVAL_v1 s'"
  by (cases c)
    (simp_all add: window_inv_handleMotion_v1 window_inv_onStep_v1 simulateStep_v1_def
      window_inv_resetAll_v1 window_inv_tick_v1)

lemma window_inv_dispatch_v2:
  "window_inv MIN_STEP_INTERVAL_v2 s
   \<Longrightarrow> \<exists>s'. dispatch_v2 s c = Inr s' \<and> window_inv MIN_STEP_INTERVAL_v2 s'"
  by (cases c)
    (simp_all add: window_inv_handleMotion_v2 window_inv_onStep_v2 simulateStep_v2_def
      window_inv_resetAll_v2 window_inv_tick_v2)

lemma window_inv_run_v1:
  "window_inv MIN_STEP_INTERVAL_v1 s
   \<Longrightarrow> \<exists>s'. run_v1 s cs = Inr s' \<and> window_inv MIN_STEP_INTERVAL_v1 s'"
proof (induction cs arbitrary: s)
  case Nil
  then show ?case by simp
next
  case (Cons c cs)
  from window_inv_dispatch_v1 [OF Cons.prems, of c]
  obtain s1 where s1: "dispatch_v1 s c = Inr s1" "window_inv MIN_STEP_INTERVAL_v1 s1"
    by blast
  from Cons.IH [OF s1(2)] show ?case by (simp add: s1(1))
qed

lemma window_inv_run_v2:
  "window_inv MIN_STEP_INTERVAL_v2 s
   \<Longrightarrow> \<exists>s'. run_v2 s cs = Inr s' \<and> window_inv MIN_STEP_INTERVAL_v2 s'"
proof (induction cs arbitrary: s)
  case Nil
  then show ?case by simp
next
  case (Cons c cs)
  from window_inv_dispatch_v2 [OF Cons.prems, of c]
  obtain s1 where s1: "dispatch_v2 s c = Inr s1" "window_inv MIN_STEP_INTERVAL_v2 s1"
    by blast
  from Cons.IH [OF s1(2)] show ?case by (simp add: s1(1))
qed

lemma window_inv_init: "window_inv g init_v1" "window_inv g init_v2"
  by (simp_all add: window_inv_def init_v1_def init_v2_def)

lemma gap_sorted:
  "0 \<le> g \<Longrightarrow> sorted_wrt (\<lambda>a b. b - a \<ge> g) ws \<Longrightarrow> sorted (ws :: int list)"
  by (erule sorted_wrt_mono_rel [rotated]) simp
lemma demo_run_v1:
  "map_sum id stepTimestamps (run_v1 init_v1 demo_run) = Inr [1000, 1400]"
  by (simp add: demo_run_def tick_v1_def simulateStep_v1_def onStep_v1_def handleMotion_v1_def
      computeCadence_v1_def js_div_def pushHistory_def updateUI_v1_def init_v1_def const_defs
      Let_def lowpass_def magnitude_def to_number_def sample_10_def sqrt_64)

lemma demo_run_v2:
  "map_sum id stepTimestamps (run_v2 init_v2 demo_run) = Inr [1000, 1400]"
  by (simp add: demo_run_def tick_v2_def simulateStep_v2_def onStep_v2_def handleMotion_v2_def
      computeCadence_v2_def js_div_def pushHistory_def updateUI_v2_def init_v2_def const_defs
      Let_def lowpass_def magnitude_def to_number_def sample_10_def sqrt_64)

lemma demo_run_clock: "sorted (clock_readings demo_run)"
  by (simp add: demo_run_def sample_10_def)

text \<open>
  C9. For every run of callbacks from the initial state whose clock readings do not
  decrease, no callback faults, and in the state reached the time stamps of the event
  window are in non-decreasing order and any two of them are at least the refractory
  interval apart (300 ms in the first version, 250 ms in the second). Every prefix of a
  run is a run, so this holds after every \<open>onStep\<close> and every \<open>computeCadence\<close>.
\<close>

theorem window_ordered_and_spaced:
  assumes "sorted (clock_readings cs)"
  shows "(\<exists>s. run_v1 init_v1 cs = Inr s
            \<and> sorted (stepTimestamps s)
            \<and> sorted_wrt (\<lambda>a b. b - a \<ge> MIN_STEP_INTERVAL_v1) (stepTimestamps s))
       \<and> (\<exists>s. run_v2 init_v2 cs = Inr s
            \<and> sorted (stepTimestamps s)
            \<and> sorted_wrt (\<lambda>a b. b - a \<ge> MIN_STEP_INTERVAL_v2) (stepTimestamps s))"
proof -
  obtain s1 where s1: "run_v1 init_v1 cs = Inr s1" "window_inv MIN_STEP_INTERVAL_v1 s1"
    using window_inv_run_v1 [OF window_inv_init(1)] by blast
  obtain s2 where s2: "run_v2 init_v2 cs = Inr s2" "window_inv MIN_STEP_INTERVAL_v2 s2"
    using window_inv_run_v2 [OF window_inv_init(2)] by blast
  have "0 \<le> MIN_STEP_INTERVAL_v1" "0 \<le> MIN_STEP_INTERVAL_v2"
    by (simp_all add: const_defs)
  then have "sorted (stepTimestamps s1)" "sorted (stepTimestamps s2)"
    using s1(2) s2(2) by (auto simp add: window_inv_def intro: gap_sorted)
  then show ?thesis
    using s1 s2 by (simp add: window_inv_def)
qed

text \<open>An instance: \<open>demo_run\<close>, which leaves the events at 1000 and 1400 ms.\<close>

theorem window_ordered_and_spaced_witness:
  "sorted (clock_readings demo_run)
   \<and> map_sum id stepTimestamps (run_v1 init_v1 demo_run) = Inr [1000, 1400]
   \<and> map_sum id stepTimestamps (run_v2 init_v2 demo_run) = Inr [1000, 1400]
   \<and> sorted_wrt (\<lambda>a b. b - a \<ge> MIN_STEP_INTERVAL_v1) [1000, 1400]"
  using window_ordered_and_spaced [OF demo_run_clock] demo_run_clock demo_run_v1 demo_run_v2
  by auto

subsection \<open>Monotonicity in the number of events\<close>










text \<open>
  What is held equal matters in the first version: a further event that comes after the
  last one moves the end of the span. With events at 1000 and 2000 ms the rate at 6000 ms
  is 60; a third event at 6000 ms widens the span from one second to five and the rate
  is 24.
\<close>

lemma span_widening_lowers_rate:
  "stepTimestamps (onStep_v1 (onStep_v1 init_v1 1000) 2000) = [1000, 2000]
   \<and> stepTimestamps (onStep_v1 (onStep_v1 (onStep_v1 init_v1 1000) 2000) 6000) = [1000, 2000, 6000]
   \<and> map_sum id fst (computeCadence_v1 (onStep_v1 (onStep_v1 init_v1 1000) 2000) 6000) = Inr 60
   \<and> map_sum id fst (computeCadence_v1 (onStep_v1 (onStep_v1 (onStep_v1 init_v1 1000) 2000) 6000) 6000) = Inr 24"
  by (simp add: onStep_v1_def init_v1_def const_defs computeCadence_v1_def js_div_def)

end
